theory Spec2Isabelle
  imports Main "HOL-Library.Word"
begin

section \<open>The picaso_lcd display driver (display.py)\<close>

text \<open>
  The driver talks to a 4D Systems serial LCD over a serial port. Every method of
  \<^verbatim>\<open>Display\<close> and \<^verbatim>\<open>DisplayText\<close> becomes a function from the state of the
  driver to an outcome and the state afterwards. The source is Python 2
  (\<^verbatim>\<open>xrange\<close>, an eager \<^verbatim>\<open>map\<close>, \<^verbatim>\<open>chr\<close> returning a byte string).

  The \<^verbatim>\<open>print\<close> statements of the source write to standard output only; they
  neither touch the serial port nor the driver's fields and are left out.
\<close>

subsection \<open>Values, errors and the state of the driver\<close>

type_synonym byte = "8 word"

text \<open>
  A Python value as far as the driver distinguishes them at run time: an integer, or a
  byte string (Python 2 \<^verbatim>\<open>str\<close>), which is what \<^verbatim>\<open>Serial.read\<close> returns.
\<close>

datatype pyval = PyInt int | PyStr "byte list"

text \<open>
  The exceptions the code can raise. \<open>ReadBlocked\<close> is not an exception: the port is
  opened without a timeout, so \<^verbatim>\<open>read()\<close> on a silent device never returns; the
  model reports that outcome as a value.
\<close>

datatype error =
    PicasoException string
  | TypeError
  | ValueError string
  | IndexError
  | AssertionError string
  | ReadBlocked

text \<open>
  \<open>ser_rx\<close>: the bytes the device will deliver, in order; \<open>ser_tx\<close>: the bytes written
  to the port so far; \<open>cached_contrast\<close>: the field \<^verbatim>\<open>self._contrast\<close>.
\<close>

record display =
  ser_rx :: "byte list"
  ser_tx :: "byte list"
  cached_contrast :: int

type_synonym 'a outcome = "(error + 'a) \<times> display"

text \<open>\<^verbatim>\<open>Display.__init__\<close>: a fresh driver on a port with the given pending input.\<close>

definition init :: "byte list \<Rightarrow> display" where
  "init rx = \<lparr>ser_rx = rx, ser_tx = [], cached_contrast = 15\<rparr>"

subsection \<open>utils.py and constants.py\<close>

text \<open>
  Modelled from the spec: \<^verbatim>\<open>constants.ACK\<close> is not part of the sources at hand;
  the ACK sentinel is the fixed byte value 0x06.
\<close>

definition ACK :: int where
  "ACK = 0x06"

text \<open>
  Modelled from the spec: \<^verbatim>\<open>utils.int_to_dword\<close> is not part of the sources at
  hand. It splits a 16-bit value into its big-endian byte pair (high byte, low byte); an
  out-of-range integer is silently reduced into a byte pair by modular arithmetic.
  Python's \<^verbatim>\<open>//\<close> and \<^verbatim>\<open>%\<close> round as \<open>div\<close> and \<open>mod\<close> on \<open>int\<close> do.
\<close>

definition int_to_dword :: "int \<Rightarrow> int \<times> int" where
  "int_to_dword v = (v div 256 mod 256, v mod 256)"

text \<open>
  Modelled from the spec: \<^verbatim>\<open>utils.dword_to_int\<close> is not part of the sources at
  hand. It reassembles a 16-bit unsigned integer from an ordered byte pair, high byte
  first.
\<close>

definition dword_to_int :: "int \<Rightarrow> int \<Rightarrow> int" where
  "dword_to_int high_byte low_byte = high_byte * 256 + low_byte"

text \<open>
  A call \<^verbatim>\<open>utils.dword_to_int(*args)\<close>: the list is unpacked into the two
  positional parameters; any other number of arguments is a \<^verbatim>\<open>TypeError\<close>, and
  so is unpacking \<^verbatim>\<open>None\<close>.
\<close>

fun dword_to_int_star :: "int list option \<Rightarrow> error + int" where
  "dword_to_int_star (Some [high_byte, low_byte]) = Inr (dword_to_int high_byte low_byte)"
| "dword_to_int_star _ = Inl TypeError"

subsection \<open>Python built-ins\<close>

text \<open>
  \<^verbatim>\<open>ord\<close> accepts a string of length one and raises \<^verbatim>\<open>TypeError\<close> on anything
  else, an integer included.
\<close>

fun py_ord :: "pyval \<Rightarrow> error + int" where
  "py_ord (PyStr [b]) = Inr (uint b)"
| "py_ord (PyStr _) = Inl TypeError"
| "py_ord (PyInt _) = Inl TypeError"

text \<open>\<^verbatim>\<open>chr\<close> raises \<^verbatim>\<open>ValueError\<close> outside \<^verbatim>\<open>range(256)\<close>.\<close>

definition py_chr :: "int \<Rightarrow> error + byte" where
  "py_chr i = (if 0 \<le> i \<and> i < 256 then Inr (word_of_int i)
               else Inl (ValueError ''chr() arg not in range(256)''))"

text \<open>
  The eager \<^verbatim>\<open>map(ord, xs)\<close> of Python 2: the first element that \<^verbatim>\<open>ord\<close>
  rejects ends the call.
\<close>

fun py_map_ord :: "pyval list \<Rightarrow> error + int list" where
  "py_map_ord [] = Inr []"
| "py_map_ord (x # xs) =
     (case py_ord x of
        Inl e \<Rightarrow> Inl e
      | Inr v \<Rightarrow> (case py_map_ord xs of Inl e \<Rightarrow> Inl e | Inr vs \<Rightarrow> Inr (v # vs)))"

text \<open>\<^verbatim>\<open>xs[i]\<close> for a literal index \<open>i \<ge> 0\<close> on the result of \<^verbatim>\<open>_get_ack\<close>.\<close>

definition py_index :: "int list option \<Rightarrow> nat \<Rightarrow> error + int" where
  "py_index xs i =
     (case xs of
        None \<Rightarrow> Inl TypeError
      | Some vs \<Rightarrow> (if i < length vs then Inr (vs ! i) else Inl IndexError))"

text \<open>\<^verbatim>\<open>repr\<close> of an integer, used by the message of the ACK failure.\<close>

fun repr_nat :: "nat \<Rightarrow> string" where
  "repr_nat n =
     (if n < 10 then [char_of (48 + n)]
      else repr_nat (n div 10) @ [char_of (48 + n mod 10)])"

definition repr_int :: "int \<Rightarrow> string" where
  "repr_int i = (if i < 0 then CHR ''-'' # repr_nat (nat (- i)) else repr_nat (nat i))"

subsection \<open>The serial port\<close>

text \<open>\<^verbatim>\<open>self._ser.write(s)\<close> for a one-byte string.\<close>

definition ser_write :: "byte \<Rightarrow> display \<Rightarrow> display" where
  "ser_write b st = st\<lparr>ser_tx := ser_tx st @ [b]\<rparr>"

text \<open>\<^verbatim>\<open>self._ser.read()\<close>: one byte, as a string of length one.\<close>

definition ser_read :: "display \<Rightarrow> pyval outcome" where
  "ser_read st =
     (case ser_rx st of
        [] \<Rightarrow> (Inl ReadBlocked, st)
      | b # bs \<Rightarrow> (Inr (PyStr [b]), st\<lparr>ser_rx := bs\<rparr>))"

subsection \<open>Display: serial communication handling\<close>

text \<open>\<^verbatim>\<open>Display.write_cmd\<close>: each word as high byte, low byte.\<close>

fun write_cmd :: "int list \<Rightarrow> display \<Rightarrow> unit outcome" where
  "write_cmd [] st = (Inr (), st)"
| "write_cmd (c # cmd) st =
     (case int_to_dword c of (high_byte, low_byte) \<Rightarrow>
        (case py_chr high_byte of
           Inl e \<Rightarrow> (Inl e, st)
         | Inr h \<Rightarrow>
             (case py_chr low_byte of
                Inl e \<Rightarrow> (Inl e, ser_write h st)
              | Inr l \<Rightarrow> write_cmd cmd (ser_write l (ser_write h st)))))"

text \<open>\<^verbatim>\<open>Display.write_raw_cmd\<close>: each byte verbatim.\<close>

fun write_raw_cmd :: "int list \<Rightarrow> display \<Rightarrow> unit outcome" where
  "write_raw_cmd [] st = (Inr (), st)"
| "write_raw_cmd (c # cmd) st =
     (case py_chr c of
        Inl e \<Rightarrow> (Inl e, st)
      | Inr b \<Rightarrow> write_raw_cmd cmd (ser_write b st))"

text \<open>The message of the exception raised on a byte that is not ACK.\<close>

definition ack_msg :: "int \<Rightarrow> string" where
  "ack_msg v = ''Instead of an ACK byte, '' @ [CHR 0x22] @ repr_int v @ [CHR 0x22]
                 @ '' was returned.''"

text \<open>The loop of \<^verbatim>\<open>_get_ack\<close> that fetches the response values.\<close>

fun read_values :: "nat \<Rightarrow> int list \<Rightarrow> display \<Rightarrow> (int list) outcome" where
  "read_values 0 vals st = (Inr vals, st)"
| "read_values (Suc n) vals st =
     (case ser_read st of
        (Inl e, st') \<Rightarrow> (Inl e, st')
      | (Inr r, st') \<Rightarrow>
          (case py_ord r of
             Inl e \<Rightarrow> (Inl e, st')
           | Inr val \<Rightarrow> read_values n (vals @ [val]) st'))"

text \<open>
  \<^verbatim>\<open>Display._get_ack\<close>: the result is \<open>None\<close> when no response is expected and
  the list of response bytes otherwise. \<^verbatim>\<open>xrange\<close> of a negative number is empty.
\<close>

definition get_ack :: "int \<Rightarrow> display \<Rightarrow> (int list option) outcome" where
  "get_ack return_bytes st =
     (case ser_read st of
        (Inl e, st1) \<Rightarrow> (Inl e, st1)
      | (Inr ack, st1) \<Rightarrow>
          (case py_ord ack of
             Inl e \<Rightarrow> (Inl e, st1)
           | Inr a \<Rightarrow>
               if a \<noteq> ACK then (Inl (PicasoException (ack_msg a)), st1)
               else if return_bytes = 0 then (Inr None, st1)
               else (case read_values (nat return_bytes) [] st1 of
                       (Inl e, st2) \<Rightarrow> (Inl e, st2)
                     | (Inr vals, st2) \<Rightarrow> (Inr (Some vals), st2))))"

subsection \<open>Display: drawing\<close>

text \<open>
  \<^verbatim>\<open>Display.gfx_polyline(lines, color, closed=False, filled=False)\<close>. A vertex is a
  pair, unpacked by \<^verbatim>\<open>x, y = point\<close>; the two loops append to \<^verbatim>\<open>cmd_list\<close>.
\<close>

definition gfx_polyline ::
  "(int \<times> int) list \<Rightarrow> int \<Rightarrow> bool \<Rightarrow> bool \<Rightarrow> display \<Rightarrow> unit outcome" where
  "gfx_polyline lines color closed filled st =
     (let cmd = 0x0015;
          cmd = (if closed then 0x0013 else cmd);
          cmd = (if filled then 0x0014 else cmd);
          size = int (length lines);
          cmd_list = [cmd, size];
          cmd_list = foldl (\<lambda>acc point. case point of (x, y) \<Rightarrow> acc @ [x]) cmd_list lines;
          cmd_list = foldl (\<lambda>acc point. case point of (x, y) \<Rightarrow> acc @ [y]) cmd_list lines;
          cmd_list = cmd_list @ [color]
      in case write_cmd cmd_list st of
           (Inl e, st1) \<Rightarrow> (Inl e, st1)
         | (Inr _, st1) \<Rightarrow>
             (case get_ack 0 st1 of
                (Inl e, st2) \<Rightarrow> (Inl e, st2)
              | (Inr _, st2) \<Rightarrow> (Inr (), st2)))"

text \<open>
  A call of \<^verbatim>\<open>gfx_polyline\<close>: \<^verbatim>\<open>color\<close> has no default value, so a call that
  does not supply it raises \<^verbatim>\<open>TypeError\<close> when the arguments are bound, before
  the body runs. \<open>None\<close> stands for an argument that the call site leaves out.
\<close>

definition gfx_polyline_call ::
  "(int \<times> int) list \<Rightarrow> int option \<Rightarrow> bool \<Rightarrow> bool \<Rightarrow> display \<Rightarrow> unit outcome" where
  "gfx_polyline_call lines color closed filled st =
     (case color of
        None \<Rightarrow> (Inl TypeError, st)
      | Some c \<Rightarrow> gfx_polyline lines c closed filled st)"

text \<open>
  \<^verbatim>\<open>Display.gfx_triangle(vertices, filled=False)\<close> calls
  \<^verbatim>\<open>self.gfx_polyline(vertices, closed=True, filled=filled)\<close>.
\<close>

definition gfx_triangle :: "(int \<times> int) list \<Rightarrow> bool \<Rightarrow> display \<Rightarrow> unit outcome" where
  "gfx_triangle vertices filled st =
     (case gfx_polyline_call vertices None True filled st of
        (Inl e, st1) \<Rightarrow> (Inl e, st1)
      | (Inr _, st1) \<Rightarrow> (Inr (), st1))"

subsection \<open>Display: settings\<close>

text \<open>
  \<^verbatim>\<open>Display.set_contrast\<close>. \<^verbatim>\<open>val\<close> is what \<^verbatim>\<open>_get_ack(2)\<close> returned, a list
  of integers; \<^verbatim>\<open>map(ord, val)\<close> applies \<^verbatim>\<open>ord\<close> to each of them. Iterating
  over \<open>None\<close> is a \<^verbatim>\<open>TypeError\<close>.
\<close>

definition set_contrast :: "int \<Rightarrow> display \<Rightarrow> unit outcome" where
  "set_contrast contrast st =
     (case write_cmd [0xff9c, contrast] st of
        (Inl e, st1) \<Rightarrow> (Inl e, st1)
      | (Inr _, st1) \<Rightarrow>
          (case get_ack 2 st1 of
             (Inl e, st2) \<Rightarrow> (Inl e, st2)
           | (Inr None, st2) \<Rightarrow> (Inl TypeError, st2)
           | (Inr (Some val), st2) \<Rightarrow>
               (case py_map_ord (map PyInt val) of
                  Inl e \<Rightarrow> (Inl e, st2)
                | Inr dword \<Rightarrow>
                    (case dword_to_int_star (Some dword) of
                       Inl e \<Rightarrow> (Inl e, st2)
                     | Inr c \<Rightarrow> (Inr (), st2\<lparr>cached_contrast := c\<rparr>)))))"

text \<open>\<^verbatim>\<open>Display.off\<close> and \<^verbatim>\<open>Display.on\<close>.\<close>

definition off :: "display \<Rightarrow> unit outcome" where
  "off st = set_contrast 0 st"

definition on :: "display \<Rightarrow> unit outcome" where
  "on st = set_contrast (cached_contrast st) st"

text \<open>\<^verbatim>\<open>Display.set_orientation\<close>: the result is \<^verbatim>\<open>self._get_ack(2)[0]\<close>.\<close>

definition set_orientation :: "int \<Rightarrow> display \<Rightarrow> int outcome" where
  "set_orientation v st =
     (case write_cmd [0xff9e, v] st of
        (Inl e, st1) \<Rightarrow> (Inl e, st1)
      | (Inr _, st1) \<Rightarrow>
          (case get_ack 2 st1 of
             (Inl e, st2) \<Rightarrow> (Inl e, st2)
           | (Inr r, st2) \<Rightarrow>
               (case py_index r 0 of
                  Inl e \<Rightarrow> (Inl e, st2)
                | Inr prev \<Rightarrow> (Inr prev, st2))))"

text \<open>
  One half of \<^verbatim>\<open>Display.get_display_size\<close>: the command for an axis, its
  acknowledgement, and \<^verbatim>\<open>map(ord, [x[0], x[1]])\<close> on the integers returned.
\<close>

definition get_display_axis :: "int \<Rightarrow> display \<Rightarrow> (int list) outcome" where
  "get_display_axis axis st =
     (case write_cmd [0xffa6, axis] st of
        (Inl e, st1) \<Rightarrow> (Inl e, st1)
      | (Inr _, st1) \<Rightarrow>
          (case get_ack 2 st1 of
             (Inl e, st2) \<Rightarrow> (Inl e, st2)
           | (Inr x, st2) \<Rightarrow>
               (case py_index x 0 of
                  Inl e \<Rightarrow> (Inl e, st2)
                | Inr x0 \<Rightarrow>
                    (case py_index x 1 of
                       Inl e \<Rightarrow> (Inl e, st2)
                     | Inr x1 \<Rightarrow>
                         (case py_map_ord [PyInt x0, PyInt x1] of
                            Inl e \<Rightarrow> (Inl e, st2)
                          | Inr x_dword \<Rightarrow> (Inr x_dword, st2))))))"

text \<open>
  \<^verbatim>\<open>Display.get_display_size\<close>: axis 0, then axis 1, then the two calls of
  \<^verbatim>\<open>utils.dword_to_int\<close>, left to right.
\<close>

definition get_display_size :: "display \<Rightarrow> (int \<times> int) outcome" where
  "get_display_size st =
     (case get_display_axis 0 st of
        (Inl e, st1) \<Rightarrow> (Inl e, st1)
      | (Inr x_dword, st1) \<Rightarrow>
          (case get_display_axis 1 st1 of
             (Inl e, st2) \<Rightarrow> (Inl e, st2)
           | (Inr y_dword, st2) \<Rightarrow>
               (case dword_to_int_star (Some x_dword) of
                  Inl e \<Rightarrow> (Inl e, st2)
                | Inr w \<Rightarrow>
                    (case dword_to_int_star (Some y_dword) of
                       Inl e \<Rightarrow> (Inl e, st2)
                     | Inr h \<Rightarrow> (Inr (w, h), st2)))))"

subsection \<open>DisplayText\<close>

text \<open>
  \<^verbatim>\<open>DisplayText.put_string\<close>. The argument is a Python 2 byte string; \<^verbatim>\<open>ord\<close> of
  one of its characters is \<open>of_char\<close>. A failed \<^verbatim>\<open>assert\<close> raises
  \<^verbatim>\<open>AssertionError\<close> with the message given.
\<close>

definition put_string :: "string \<Rightarrow> display \<Rightarrow> unit outcome" where
  "put_string s st =
     (if length s > 511 then (Inl (ValueError ''Max string length is 511 chars''), st)
      else
        let cmd = [0x00, 0x18];
            cmd = foldl (\<lambda>acc char. acc @ [of_char char]) cmd s;
            cmd = cmd @ [0x00]
        in case write_raw_cmd cmd st of
             (Inl e, st1) \<Rightarrow> (Inl e, st1)
           | (Inr _, st1) \<Rightarrow>
               (case get_ack 2 st1 of
                  (Inl e, st2) \<Rightarrow> (Inl e, st2)
                | (Inr r, st2) \<Rightarrow>
                    (case dword_to_int_star r of
                       Inl e \<Rightarrow> (Inl e, st2)
                     | Inr length_written \<Rightarrow>
                         if length_written = int (length s) then (Inr (), st2)
                         else (Inl (AssertionError
                                 ''Length of string does not match length of original string''),
                               st2))))"

subsection \<open>Auxiliary definitions for the statements\<close>

text \<open>The two bytes that \<^verbatim>\<open>write_cmd\<close> puts on the wire for one word.\<close>

definition dword_bytes :: "int \<Rightarrow> byte list" where
  "dword_bytes c = (case int_to_dword c of (high_byte, low_byte) \<Rightarrow>
                      [word_of_int high_byte, word_of_int low_byte])"

text \<open>Reading a decimal numeral back, to show that \<open>repr_nat\<close> loses nothing.\<close>

definition digits_value :: "string \<Rightarrow> nat" where
  "digits_value s = foldl (\<lambda>acc c. 10 * acc + (of_char c - 48)) 0 s"

text \<open>
  The statements \<^verbatim>\<open>d.set_contrast(200); d.off(); d.on()\<close> in sequence: an
  exception raised by one of them ends the sequence.
\<close>

definition contrast_200_off_on :: "display \<Rightarrow> unit outcome" where
  "contrast_200_off_on st =
     (case set_contrast 200 st of
        (Inl e, st1) \<Rightarrow> (Inl e, st1)
      | (Inr _, st1) \<Rightarrow>
          (case off st1 of
             (Inl e, st2) \<Rightarrow> (Inl e, st2)
           | (Inr _, st2) \<Rightarrow> on st2))"

section \<open>Properties\<close>

subsection \<open>Word encoding\<close>

text \<open>
  C8: for every \<open>v\<close> in [0, 65535], decoding the big-endian byte pair produced by encoding
  \<open>v\<close> gives \<open>v\<close> back.
\<close>

theorem dword_roundtrip:
  "0 \<le> v \<Longrightarrow> v \<le> 65535 \<Longrightarrow>
     (case int_to_dword v of (high_byte, low_byte) \<Rightarrow> dword_to_int high_byte low_byte) = v"
proof -
  assume "0 \<le> v" and "v \<le> 65535"
  then have "v div 256 < 256" by simp
  moreover from \<open>0 \<le> v\<close> have "0 \<le> v div 256" by simp
  ultimately have "v div 256 mod 256 = v div 256" by simp
  then show ?thesis by (simp add: int_to_dword_def dword_to_int_def)
qed

theorem dword_roundtrip_witness:
  "(0::int) \<le> 0xff9c \<and> (0xff9c::int) \<le> 65535 \<and> int_to_dword 0xff9c = (0xff, 0x9c)
     \<and> (case int_to_dword 0xff9c of (high_byte, low_byte) \<Rightarrow> dword_to_int high_byte low_byte)
         = 0xff9c"
  using dword_roundtrip [of "0xff9c"] by (simp add: int_to_dword_def)

subsection \<open>Transmission\<close>

lemma py_chr_in_range: "0 \<le> i \<Longrightarrow> i < 256 \<Longrightarrow> py_chr i = Inr (word_of_int i)"
  by (simp add: py_chr_def)

text \<open>
  With the byte pair reduced modulo 256, \<^verbatim>\<open>chr\<close> never fails in \<open>write_cmd\<close>: the
  call writes the two bytes of every word, in order, and returns.
\<close>

lemma write_cmd_sends:
  "write_cmd cmd st = (Inr (), st\<lparr>ser_tx := ser_tx st @ concat (map dword_bytes cmd)\<rparr>)"
proof (induction cmd arbitrary: st)
  case Nil
  show ?case by simp
next
  case (Cons c cmd)
  have h: "py_chr (c div 256 mod 256) = Inr (word_of_int (c div 256 mod 256))"
    by (rule py_chr_in_range) simp_all
  have l: "py_chr (c mod 256) = Inr (word_of_int (c mod 256))"
    by (rule py_chr_in_range) simp_all
  show ?case
    by (simp add: int_to_dword_def h l Cons.IH ser_write_def dword_bytes_def)
qed

lemma write_raw_cmd_sends:
  "\<forall>c \<in> set cmd. 0 \<le> c \<and> c < 256 \<Longrightarrow>
     write_raw_cmd cmd st = (Inr (), st\<lparr>ser_tx := ser_tx st @ map word_of_int cmd\<rparr>)"
proof (induction cmd arbitrary: st)
  case Nil
  show ?case by simp
next
  case (Cons c cmd)
  then have "py_chr c = Inr (word_of_int c)" by (simp add: py_chr_in_range)
  with Cons show ?case by (simp add: ser_write_def)
qed

text \<open>A loop that appends one item per element is a \<open>map\<close>.\<close>

lemma foldl_append_each: "foldl (\<lambda>acc x. acc @ [f x]) acc xs = acc @ map f xs"
  by (induction xs arbitrary: acc) simp_all

subsection \<open>Acknowledgement and response\<close>

lemma read_values_keeps:
  "read_values n vals st = (r, st') \<Longrightarrow>
     ser_tx st' = ser_tx st \<and> cached_contrast st' = cached_contrast st"
proof (induction n arbitrary: vals st)
  case 0
  then show ?case by auto
next
  case (Suc n)
  show ?case
  proof (cases "ser_rx st")
    case Nil
    with Suc.prems show ?thesis by (auto simp: ser_read_def)
  next
    case (Cons b bs)
    with Suc.prems have "read_values n (vals @ [uint b]) (st\<lparr>ser_rx := bs\<rparr>) = (r, st')"
      by (simp add: ser_read_def)
    from Suc.IH [OF this] show ?thesis by simp
  qed
qed

text \<open>Reading never writes to the port and never touches the cached contrast.\<close>

lemma get_ack_keeps:
  "get_ack n st = (r, st') \<Longrightarrow>
     ser_tx st' = ser_tx st \<and> cached_contrast st' = cached_contrast st"
  by (auto simp: get_ack_def ser_read_def
           split: list.splits sum.splits prod.splits if_splits
           dest: read_values_keeps)

lemma uint_byte_ACK: "uint (b :: byte) = ACK \<longleftrightarrow> b = 0x06"
proof
  assume "uint b = ACK"
  then have "word_of_int (uint b) = (word_of_int 6 :: byte)" by (simp add: ACK_def)
  then show "b = 0x06" by simp
next
  assume "b = 0x06"
  then show "uint b = ACK" by (simp add: ACK_def)
qed

lemma get_ack_nak:
  assumes "ser_rx st = b # rest" and "b \<noteq> 0x06"
  shows "get_ack n st = (Inl (PicasoException (ack_msg (uint b))), st\<lparr>ser_rx := rest\<rparr>)"
  using assms by (simp add: get_ack_def ser_read_def uint_byte_ACK)

lemma get_ack_none:
  "ser_rx st = 0x06 # rest \<Longrightarrow> get_ack 0 st = (Inr None, st\<lparr>ser_rx := rest\<rparr>)"
  by (simp add: get_ack_def ser_read_def ACK_def)

lemma read_values_2: "read_values 2 vals st = read_values (Suc (Suc 0)) vals st"
  by (simp only: numeral_2_eq_2)

lemma read_values_two:
  "ser_rx st = hi # lo # rest \<Longrightarrow>
     read_values (Suc (Suc 0)) vals st = (Inr (vals @ [uint hi, uint lo]), st\<lparr>ser_rx := rest\<rparr>)"
  by (simp add: ser_read_def)

lemma get_ack_two:
  assumes "ser_rx st = 0x06 # hi # lo # rest"
  shows "get_ack 2 st = (Inr (Some [uint hi, uint lo]), st\<lparr>ser_rx := rest\<rparr>)"
proof -
  have two: "nat 2 = Suc (Suc 0)" by simp
  have "read_values (nat 2) [] (st\<lparr>ser_rx := hi # lo # rest\<rparr>)
          = (Inr [uint hi, uint lo], st\<lparr>ser_rx := rest\<rparr>)"
    unfolding two by (simp add: read_values_two del: read_values.simps)
  with assms show ?thesis
    by (simp add: get_ack_def ser_read_def ACK_def)
qed

text \<open>The message of the exception determines the byte it was built from.\<close>

lemma digits_value_repr: "digits_value (repr_nat n) = n"
proof (induction n rule: repr_nat.induct)
  case (1 n)
  show ?case
  proof (cases "n < 10")
    case True
    then show ?thesis by (subst repr_nat.simps) (simp add: digits_value_def)
  next
    case False
    with 1 have ih:
      "foldl (\<lambda>acc c. 10 * acc + (of_char c - 48)) 0 (repr_nat (n div 10)) = n div 10"
      by (simp add: digits_value_def)
    have "(48 + n mod 10) mod 256 = 48 + n mod 10"
      by (rule mod_less) (simp add: less_Suc_eq_le)
    with False ih show ?thesis
      by (subst repr_nat.simps) (simp add: digits_value_def)
  qed
qed

lemma ack_msg_inj: "0 \<le> v \<Longrightarrow> 0 \<le> w \<Longrightarrow> ack_msg v = ack_msg w \<Longrightarrow> v = w"
proof -
  assume v: "0 \<le> v" and w: "0 \<le> w" and "ack_msg v = ack_msg w"
  then have "repr_nat (nat v) = repr_nat (nat w)"
    by (simp add: ack_msg_def repr_int_def)
  then have "digits_value (repr_nat (nat v)) = digits_value (repr_nat (nat w))" by simp
  then have "nat v = nat w" by (simp only: digits_value_repr)
  with v w show ?thesis by simp
qed

text \<open>
  C3: for every expected response count \<open>n\<close>, when the first byte read by \<open>get_ack\<close> is
  not the ACK sentinel 0x06, the call fails with a \<^verbatim>\<open>PicasoException\<close> whose message
  is built from the value of that byte (and determines it), and exactly that one byte has
  been consumed: the rest of the pending input is untouched.
\<close>

theorem get_ack_rejects_non_ack:
  assumes "ser_rx st = b # rest" and "b \<noteq> 0x06"
  shows "get_ack n st = (Inl (PicasoException (ack_msg (uint b))), st\<lparr>ser_rx := rest\<rparr>)
     \<and> (ack_msg (uint b') = ack_msg (uint b) \<longrightarrow> b' = b)"
proof
  from assms show "get_ack n st
      = (Inl (PicasoException (ack_msg (uint b))), st\<lparr>ser_rx := rest\<rparr>)"
    by (rule get_ack_nak)
  show "ack_msg (uint b') = ack_msg (uint b) \<longrightarrow> b' = b"
  proof
    assume "ack_msg (uint b') = ack_msg (uint b)"
    then have "uint b' = uint b" by (intro ack_msg_inj) simp_all
    then have "word_of_int (uint b') = (word_of_int (uint b) :: byte)" by simp
    then show "b' = b" by simp
  qed
qed

theorem get_ack_rejects_non_ack_witness:
  "ser_rx (init [0x15, 1, 2]) = 0x15 # [1, 2] \<and> (0x15 :: byte) \<noteq> 0x06
     \<and> get_ack 2 (init [0x15, 1, 2])
         = (Inl (PicasoException
                   (''Instead of an ACK byte, '' @ [CHR 0x22] @ ''21'' @ [CHR 0x22]
                      @ '' was returned.'')),
            \<lparr>ser_rx = [1, 2], ser_tx = [], cached_contrast = 15\<rparr>)"
  using get_ack_rejects_non_ack [of "init [0x15, 1, 2]" "0x15" "[1, 2]" 2]
  by (simp add: init_def ack_msg_def repr_int_def char_of_eq_iff)

text \<open>
  C9: when \<open>get_ack\<close> is called with an expected response length of zero and the port
  yields the ACK byte 0x06, the call succeeds; its result is \<open>None\<close>, the payload that
  stands for "no data" (not a list of zero bytes), and only the ACK byte is consumed.
\<close>

theorem get_ack_zero_no_data:
  "ser_rx st = 0x06 # rest \<Longrightarrow> get_ack 0 st = (Inr None, st\<lparr>ser_rx := rest\<rparr>)"
  by (rule get_ack_none)

theorem get_ack_zero_no_data_witness:
  "ser_rx (init [0x06]) = [0x06]
     \<and> get_ack 0 (init [0x06]) = (Inr None, \<lparr>ser_rx = [], ser_tx = [], cached_contrast = 15\<rparr>)"
  using get_ack_zero_no_data [of "init [0x06]" "[]"] by (simp add: init_def)

subsection \<open>Drawing\<close>

text \<open>
  C4: for every vertex list and colour, \<open>gfx_polyline\<close> sends, as words and in this
  order: the selected opcode (0x0014 when filled, else 0x0013 when closed, else 0x0015),
  the number of vertices, all X coordinates in input order, then all Y coordinates in
  input order, then the colour. X and Y are not interleaved. This is what has been
  written whatever the device answers afterwards.
\<close>

theorem gfx_polyline_word_order:
  "ser_tx (snd (gfx_polyline vs c closed filled st))
     = ser_tx st @ concat (map dword_bytes
         ([if filled then 0x0014 else if closed then 0x0013 else 0x0015, int (length vs)]
            @ map fst vs @ map snd vs @ [c]))"
proof -
  let ?ws = "[if filled then 0x0014 else if closed then 0x0013 else 0x0015, int (length vs)]
               @ map fst vs @ map snd vs @ [c]"
  let ?st1 = "st\<lparr>ser_tx := ser_tx st @ concat (map dword_bytes ?ws)\<rparr>"
  obtain r st2 where ack: "get_ack 0 ?st1 = (r, st2)" by (cases "get_ack 0 ?st1")
  from get_ack_keeps [OF ack] have tx: "ser_tx st2 = ser_tx ?st1" by simp
  have "snd (gfx_polyline vs c closed filled st) = st2"
    using ack
    by (cases filled; cases closed)
       (simp_all add: gfx_polyline_def Let_def case_prod_beta foldl_append_each write_cmd_sends
             split: sum.splits)
  with tx show ?thesis by simp
qed

theorem gfx_polyline_word_order_witness:
  "gfx_polyline [(1, 2), (3, 4), (5, 6)] 0xF800 False False (init [0x06])
     = (Inr (), \<lparr>ser_rx = [],
                 ser_tx = [0x00, 0x15, 0x00, 0x03, 0x00, 0x01, 0x00, 0x03, 0x00, 0x05,
                           0x00, 0x02, 0x00, 0x04, 0x00, 0x06, 0xF8, 0x00],
                 cached_contrast = 15\<rparr>)
   \<and> ser_tx (snd (gfx_polyline [(1, 2), (3, 4), (5, 6)] 0xF800 False False (init [0x06])))
     = ser_tx (init [0x06])
         @ concat (map dword_bytes ([0x0015, 3] @ [1, 3, 5] @ [2, 4, 6] @ [0xF800]))"
  using gfx_polyline_word_order [of "[(1, 2), (3, 4), (5, 6)]" "0xF800" False False "init [0x06]"]
  by (simp add: gfx_polyline_def init_def int_to_dword_def py_chr_def ser_write_def
        get_ack_def ser_read_def ACK_def dword_bytes_def)

text \<open>
  C10: for every vertex list and every value of the filled flag, \<open>gfx_triangle\<close> raises
  \<^verbatim>\<open>TypeError\<close> before anything is written to the port or read from it, because
  its call of \<open>gfx_polyline\<close> does not supply the colour.
\<close>

theorem gfx_triangle_type_error:
  "gfx_triangle vertices filled st = (Inl TypeError, st)"
  by (simp add: gfx_triangle_def gfx_polyline_call_def)

subsection \<open>Text\<close>

lemma of_char_byte_range: "0 \<le> (of_char c :: int) \<and> (of_char c :: int) < 256"
proof -
  have "(of_char c :: int) mod 256 = of_char c" by simp
  moreover have "0 \<le> (of_char c :: int) mod 256" and "(of_char c :: int) mod 256 < 256"
    by (rule pos_mod_sign, simp) (rule pos_mod_bound, simp)
  ultimately show ?thesis by simp
qed

lemma put_string_writes:
  "write_raw_cmd (foldl (\<lambda>acc char. acc @ [of_char char]) [0x00, 0x18] s @ [0x00]) st
     = (Inr (), st\<lparr>ser_tx := ser_tx st @ [0x00, 0x18] @ map of_char s @ [0x00]\<rparr>)"
proof -
  let ?cmd = "[0x00, 0x18] @ map of_char s @ [0x00 :: int]"
  have "\<forall>c \<in> set ?cmd. 0 \<le> c \<and> c < 256" by (auto simp: of_char_byte_range)
  then have "write_raw_cmd ?cmd st = (Inr (), st\<lparr>ser_tx := ser_tx st @ map word_of_int ?cmd\<rparr>)"
    by (rule write_raw_cmd_sends)
  then show ?thesis by (simp add: foldl_append_each of_int_of_char)
qed

lemma put_string_tx:
  assumes "length s \<le> 511"
  shows "ser_tx (snd (put_string s st)) = ser_tx st @ [0x00, 0x18] @ map of_char s @ [0x00]"
proof -
  let ?st1 = "st\<lparr>ser_tx := ser_tx st @ [0x00, 0x18] @ map of_char s @ [0x00]\<rparr>"
  note w = put_string_writes [of s st]
  from assms have len: "\<not> length s > 511" by simp
  obtain r st2 where ack: "get_ack 2 ?st1 = (r, st2)" by (cases "get_ack 2 ?st1")
  from get_ack_keeps [OF ack] have tx: "ser_tx st2 = ser_tx ?st1" by simp
  have "snd (put_string s st) = st2"
    using ack len w by (simp add: put_string_def Let_def split: sum.splits)
  with tx show ?thesis by simp
qed

lemma put_string_checks:
  assumes "length s \<le> 511" and rx: "ser_rx st = 0x06 # hi # lo # rest"
  shows "put_string s st =
           (if dword_to_int (uint hi) (uint lo) = int (length s) then Inr ()
            else Inl (AssertionError
                        ''Length of string does not match length of original string''),
            st\<lparr>ser_tx := ser_tx st @ [0x00, 0x18] @ map of_char s @ [0x00], ser_rx := rest\<rparr>)"
proof -
  let ?st1 = "st\<lparr>ser_tx := ser_tx st @ [0x00, 0x18] @ map of_char s @ [0x00]\<rparr>"
  note w = put_string_writes [of s st]
  from assms have len: "\<not> length s > 511" by simp
  from rx have "ser_rx ?st1 = 0x06 # hi # lo # rest" by simp
  from get_ack_two [OF this] have
    "get_ack 2 ?st1 = (Inr (Some [uint hi, uint lo]), ?st1\<lparr>ser_rx := rest\<rparr>)" .
  with len w show ?thesis by (simp add: put_string_def Let_def)
qed

text \<open>
  C2: for every string \<open>s\<close> of at most 511 characters, \<open>put_string\<close> writes exactly the
  raw bytes 0x00, 0x18, one byte per character of \<open>s\<close>, and a terminating 0x00. When the
  device then answers ACK and two bytes, these are decoded as a big-endian word, and the
  call succeeds if and only if that word equals the length of \<open>s\<close>; on a mismatch it
  fails with \<^verbatim>\<open>AssertionError\<close>. The three bytes are consumed in both cases.
\<close>

theorem put_string_sends_and_checks:
  assumes "length s \<le> 511"
  shows "ser_tx (snd (put_string s st)) = ser_tx st @ [0x00, 0x18] @ map of_char s @ [0x00]
     \<and> (ser_rx st = 0x06 # hi # lo # rest \<longrightarrow>
          put_string s st =
            (if dword_to_int (uint hi) (uint lo) = int (length s) then Inr ()
             else Inl (AssertionError
                         ''Length of string does not match length of original string''),
             st\<lparr>ser_tx := ser_tx st @ [0x00, 0x18] @ map of_char s @ [0x00], ser_rx := rest\<rparr>))"
  using assms by (simp add: put_string_tx put_string_checks)

theorem put_string_sends_and_checks_witness:
  "length ''OK'' \<le> 511
     \<and> ser_tx (snd (put_string ''OK'' (init [0x06, 0x00, 0x02]))) = [0x00, 0x18, 0x4F, 0x4B, 0x00]
     \<and> ser_rx (init [0x06, 0x00, 0x02]) = [0x06, 0x00, 0x02]
     \<and> put_string ''OK'' (init [0x06, 0x00, 0x02])
         = (Inr (), \<lparr>ser_rx = [], ser_tx = [0x00, 0x18, 0x4F, 0x4B, 0x00], cached_contrast = 15\<rparr>)"
  using put_string_sends_and_checks [of "''OK''" "init [0x06, 0x00, 0x02]" "0x00" "0x02" "[]"]
  by (simp add: init_def dword_to_int_def)

text \<open>The other half of the example: the device reports three characters for "OK".\<close>

lemma put_string_OK_mismatch:
  "put_string ''OK'' (init [0x06, 0x00, 0x03])
     = (Inl (AssertionError ''Length of string does not match length of original string''),
        \<lparr>ser_rx = [], ser_tx = [0x00, 0x18, 0x4F, 0x4B, 0x00], cached_contrast = 15\<rparr>)"
  using put_string_checks [of "''OK''" "init [0x06, 0x00, 0x03]" "0x00" "0x03" "[]"]
  by (simp add: init_def dword_to_int_def)

text \<open>
  C7: for every string of more than 511 characters, \<open>put_string\<close> fails with
  \<^verbatim>\<open>ValueError\<close> and leaves the driver as it was: no byte is written to the port and
  none is read from it.
\<close>

theorem put_string_too_long:
  "length s > 511 \<Longrightarrow>
     put_string s st = (Inl (ValueError ''Max string length is 511 chars''), st)"
  by (simp add: put_string_def)

theorem put_string_too_long_witness:
  "length (replicate 512 CHR ''x'') > 511
     \<and> put_string (replicate 512 CHR ''x'') (init [0x06, 0x02, 0x00])
         = (Inl (ValueError ''Max string length is 511 chars''), init [0x06, 0x02, 0x00])
     \<and> ser_tx (init [0x06, 0x02, 0x00]) = []
     \<and> ser_rx (init [0x06, 0x02, 0x00]) = [0x06, 0x02, 0x00]"
  using put_string_too_long [of "replicate 512 CHR ''x''" "init [0x06, 0x02, 0x00]"]
  by (simp add: init_def)

subsection \<open>Contrast\<close>

text \<open>
  \<^verbatim>\<open>ord\<close> rejects every integer, so \<^verbatim>\<open>map(ord, val)\<close> on a non-empty list of
  integers raises.
\<close>

lemma py_map_ord_ints:
  "py_map_ord (map PyInt vals) = (if vals = [] then Inr [] else Inl TypeError)"
  by (cases vals) simp_all

lemma set_contrast_keeps_cache:
  "cached_contrast (snd (set_contrast v st)) = cached_contrast st"
proof -
  let ?st1 = "st\<lparr>ser_tx := ser_tx st @ concat (map dword_bytes [0xff9c, v])\<rparr>"
  obtain r st2 where ack: "get_ack 2 ?st1 = (r, st2)" by (cases "get_ack 2 ?st1")
  from get_ack_keeps [OF ack] have "cached_contrast st2 = cached_contrast st" by simp
  with ack show ?thesis
    by (simp add: set_contrast_def write_cmd_sends py_map_ord_ints
             split: sum.splits option.splits)
qed

lemma set_contrast_tx:
  "ser_tx (snd (set_contrast v st)) = ser_tx st @ [0xFF, 0x9C] @ dword_bytes v"
proof -
  let ?st1 = "st\<lparr>ser_tx := ser_tx st @ concat (map dword_bytes [0xff9c, v])\<rparr>"
  obtain r st2 where ack: "get_ack 2 ?st1 = (r, st2)" by (cases "get_ack 2 ?st1")
  from get_ack_keeps [OF ack] have "ser_tx st2 = ser_tx ?st1" by simp
  moreover have "dword_bytes 0xff9c = [0xFF, 0x9C]"
    by (simp add: dword_bytes_def int_to_dword_def)
  ultimately show ?thesis using ack
    by (simp add: set_contrast_def write_cmd_sends py_map_ord_ints
             split: sum.splits option.splits)
qed

text \<open>
  On every input \<open>set_contrast\<close> ends in an error: either the acknowledgement fails, or
  \<^verbatim>\<open>map(ord, val)\<close> raises on the integers that \<^verbatim>\<open>_get_ack\<close> returned. The
  assignment to \<^verbatim>\<open>self._contrast\<close> is never reached.
\<close>

lemma set_contrast_never_succeeds: "fst (set_contrast v st) \<noteq> Inr u"
proof -
  let ?st1 = "st\<lparr>ser_tx := ser_tx st @ concat (map dword_bytes [0xff9c, v])\<rparr>"
  obtain r st2 where ack: "get_ack 2 ?st1 = (r, st2)" by (cases "get_ack 2 ?st1")
  then show ?thesis
    by (simp add: set_contrast_def write_cmd_sends py_map_ord_ints
             split: sum.splits option.splits)
qed

text \<open>
  C1 on a fresh driver whose device acknowledges every command and echoes the previous
  contrast (15, then 200, then 0): \<open>set_contrast 200\<close> writes its command, reads the
  acknowledgement and the two response bytes, and then raises \<^verbatim>\<open>TypeError\<close>. The
  sequence ends there: neither \<open>off\<close> nor \<open>on\<close> issues a command, and the cache still
  holds 15, not 200. Even when each exception is caught and the next call made, the last
  command carries 15 (0x000F), not 200 (0x00C8).
\<close>

theorem contrast_200_off_on_type_error:
  "contrast_200_off_on (init [0x06, 0x00, 0x0F, 0x06, 0x00, 0xC8, 0x06, 0x00, 0x00])
     = (Inl TypeError,
        \<lparr>ser_rx = [0x06, 0x00, 0xC8, 0x06, 0x00, 0x00], ser_tx = [0xFF, 0x9C, 0x00, 0xC8],
           cached_contrast = 15\<rparr>)
   \<and> ser_tx (snd (on (snd (off (snd (set_contrast 200
         (init [0x06, 0x00, 0x0F, 0x06, 0x00, 0xC8, 0x06, 0x00, 0x00])))))))
     = [0xFF, 0x9C, 0x00, 0xC8, 0xFF, 0x9C, 0x00, 0x00, 0xFF, 0x9C, 0x00, 0x0F]"
  by (simp add: read_values_2 contrast_200_off_on_def set_contrast_def off_def on_def init_def
        int_to_dword_def py_chr_def ser_write_def get_ack_def ser_read_def ACK_def)

subsection \<open>Orientation and display size\<close>

text \<open>
  Whatever the two response bytes are, \<open>set_orientation\<close> returns the first of them, the
  high byte of the word.
\<close>

lemma set_orientation_first_byte:
  assumes "ser_rx st = 0x06 # hi # lo # rest"
  shows "fst (set_orientation v st) = Inr (uint hi)"
proof -
  let ?st1 = "st\<lparr>ser_tx := ser_tx st @ concat (map dword_bytes [0xff9e, v])\<rparr>"
  from assms have "ser_rx ?st1 = 0x06 # hi # lo # rest" by simp
  from get_ack_two [OF this] show ?thesis
    by (simp add: set_orientation_def write_cmd_sends py_index_def)
qed

text \<open>
  C5 at a display in portrait (previous orientation 2, response bytes 0x00 0x02):
  \<open>set_orientation 0\<close> returns 0, the high byte, where the big-endian word decoded
  from the response is 2.
\<close>

theorem set_orientation_high_byte:
  "set_orientation 0 (init [0x06, 0x00, 0x02])
     = (Inr 0, \<lparr>ser_rx = [], ser_tx = [0xFF, 0x9E, 0x00, 0x00], cached_contrast = 15\<rparr>)
   \<and> dword_to_int 0x00 0x02 = 2"
  by (simp add: read_values_2 set_orientation_def init_def py_index_def dword_to_int_def
        int_to_dword_def py_chr_def ser_write_def get_ack_def ser_read_def ACK_def)

text \<open>
  \<^verbatim>\<open>map(ord, [x[0], x[1]])\<close> is applied to integers, so neither half of
  \<open>get_display_size\<close> ever returns, and the function never returns a pair.
\<close>

lemma get_display_axis_raises: "fst (get_display_axis axis st) \<noteq> Inr x_dword"
  by (simp add: get_display_axis_def write_cmd_sends
           split: sum.splits prod.splits option.splits)

lemma get_display_size_raises: "fst (get_display_size st) \<noteq> Inr wh"
proof -
  obtain r st1 where ax: "get_display_axis 0 st = (r, st1)" by (cases "get_display_axis 0 st")
  with get_display_axis_raises [of 0 st] obtain e where "r = Inl e" by (cases r) auto
  with ax show ?thesis by (simp add: get_display_size_def)
qed

text \<open>
  C6 at a 320 by 240 display (responses 0x01 0x40 and 0x00 0xF0): \<open>get_display_size\<close>
  raises \<^verbatim>\<open>TypeError\<close> after the first round trip; the command for the second axis
  is never written and its answer stays unread.
\<close>

theorem get_display_size_type_error:
  "get_display_size (init [0x06, 0x01, 0x40, 0x06, 0x00, 0xF0])
     = (Inl TypeError,
        \<lparr>ser_rx = [0x06, 0x00, 0xF0], ser_tx = [0xFF, 0xA6, 0x00, 0x00], cached_contrast = 15\<rparr>)"
  by (simp add: read_values_2 get_display_size_def get_display_axis_def init_def py_index_def
        int_to_dword_def py_chr_def ser_write_def get_ack_def ser_read_def ACK_def)

end
